theory Spec2Isabelle
  imports Main "HOL-Library.Multiset"
begin

section \<open>JavaScript values and operators used by the award library\<close>

text \<open>
  Strings are lists of code units. A HOL \<^typ>\<open>char\<close> is one code unit below 256, which
  covers every literal of \<^verbatim>\<open>src/lib/directus.ts\<close>. Among these code units
  \<^verbatim>\<open>String.prototype.trim\<close> strips TAB, LF, VT, FF, CR, SPACE and NBSP.
\<close>

definition isWhiteSpace :: "char \<Rightarrow> bool" where
  "isWhiteSpace c =
     (c = CHR 0x09 \<or> c = CHR 0x0A \<or> c = CHR 0x0B \<or> c = CHR 0x0C \<or> c = CHR 0x0D
      \<or> c = CHR 0x20 \<or> c = CHR 0xA0)"

definition trim :: "string \<Rightarrow> string" where
  "trim s = rev (dropWhile isWhiteSpace (rev (dropWhile isWhiteSpace s)))"

text \<open>\<^verbatim>\<open>a ?? b\<close>: the right operand is taken only when the left one is null or
  undefined (both are \<^const>\<open>None\<close>). \<^verbatim>\<open>a ?? b ?? null\<close> keeps the option.\<close>

definition nullish :: "'a option \<Rightarrow> 'a \<Rightarrow> 'a" where
  "nullish a b = (case a of None \<Rightarrow> b | Some v \<Rightarrow> v)"

definition nullish_opt :: "'a option \<Rightarrow> 'a option \<Rightarrow> 'a option" where
  "nullish_opt a b = (case a of None \<Rightarrow> b | Some v \<Rightarrow> Some v)"

text \<open>\<^verbatim>\<open>a?.f\<close>: optional chaining into a field that may itself be null.\<close>

definition opt_chain :: "'a option \<Rightarrow> ('a \<Rightarrow> 'b option) \<Rightarrow> 'b option" where
  "opt_chain a f = (case a of None \<Rightarrow> None | Some v \<Rightarrow> f v)"

text \<open>\<^verbatim>\<open>s || d\<close> on strings: the empty string is the only falsy string.\<close>

definition or_str :: "string \<Rightarrow> string \<Rightarrow> string" where
  "or_str s d = (if s = [] then d else s)"

text \<open>Truthiness of a \<^verbatim>\<open>string | null | undefined\<close> value.\<close>

definition truthy_str :: "string option \<Rightarrow> bool" where
  "truthy_str s = (case s of None \<Rightarrow> False | Some v \<Rightarrow> v \<noteq> [])"

text \<open>\<^verbatim>\<open>Array.prototype.join\<close>; a null element prints as the empty string.\<close>

fun join :: "string \<Rightarrow> string option list \<Rightarrow> string" where
  "join sep [] = []"
| "join sep [x] = nullish x []"
| "join sep (x # y # ys) = nullish x [] @ sep @ join sep (y # ys)"

text \<open>
  \<^verbatim>\<open>Array.prototype.sort(cmp)\<close> is stable (ECMAScript 2019). It is modelled by a stable
  insertion sort driven by the comparator: an element goes in front of the first element
  it does not compare greater than.
\<close>

fun insort_cmp :: "('a \<Rightarrow> 'a \<Rightarrow> int) \<Rightarrow> 'a \<Rightarrow> 'a list \<Rightarrow> 'a list" where
  "insort_cmp cmp x [] = [x]"
| "insort_cmp cmp x (y # ys) =
     (if cmp x y \<le> 0 then x # y # ys else y # insort_cmp cmp x ys)"

definition Array_sort :: "('a \<Rightarrow> 'a \<Rightarrow> int) \<Rightarrow> 'a list \<Rightarrow> 'a list" where
  "Array_sort cmp xs = foldr (insort_cmp cmp) xs []"

text \<open>
  \<^verbatim>\<open>Date.parse\<close> belongs to the platform, so it is a parameter \<open>parse\<close> of the
  functions that call it: \<^const>\<open>None\<close> is NaN, \<open>Some ms\<close> a time value in
  milliseconds. \<^verbatim>\<open>Date.parse(s) || 0\<close> turns NaN (and 0) into 0.
\<close>

type_synonym Date_parse = "string \<Rightarrow> int option"

definition or_zero :: "int option \<Rightarrow> int" where
  "or_zero d = (case d of None \<Rightarrow> 0 | Some ms \<Rightarrow> ms)"

text \<open>
  \<^verbatim>\<open>Map<string, number>\<close> and \<^verbatim>\<open>Set<string>\<close> keep insertion order: a map is an
  association list in which \<^verbatim>\<open>set\<close> overwrites a present key in place and appends a new
  one; a set is a list to which \<^verbatim>\<open>add\<close> appends an absent element.
\<close>

fun Map_set :: "('k \<times> 'v) list \<Rightarrow> 'k \<Rightarrow> 'v \<Rightarrow> ('k \<times> 'v) list" where
  "Map_set [] k v = [(k, v)]"
| "Map_set ((k', v') # m) k v =
     (if k' = k then (k, v) # m else (k', v') # Map_set m k v)"

definition Map_get :: "('k \<times> 'v) list \<Rightarrow> 'k \<Rightarrow> 'v option" where
  "Map_get m k = map_of m k"

definition Set_add :: "'a list \<Rightarrow> 'a \<Rightarrow> 'a list" where
  "Set_add s x = (if x \<in> set s then s else s @ [x])"

definition new_Set :: "'a list \<Rightarrow> 'a list" where
  "new_Set xs = fold (\<lambda>x s. Set_add s x) xs []"

section \<open>Records of the content store\<close>

record DirectusUser =
  first_name :: "string option"
  last_name :: "string option"

record DirectusParticipant = DirectusUser +
  participant_id :: "int option"

record DirectusTeam =
  team_id :: "int option"
  team_name :: "string option"

record AwardCategory =
  category_name :: "string option"
  category_color :: "string option"

text \<open>
  The status that the functions of the library take as an argument is one of three. The
  status of a stored award is declared with the same three values, but the record is the
  store's JSON, cast without a check, and the summaries only compare the field with the
  three literals: it is the string as stored, and any other value behaves as a string
  outside the three does.
\<close>

datatype AwardStatus = Pending | Approved | Rejected

datatype AwardType = Individual | Team | Overall

record DirectusAwardRecord =
  award_id :: int
  status :: string
  award_type :: "AwardType option"
  submitted_at :: "string option"
  approved_at :: "string option"
  category :: "AwardCategory option"
  participant_nominee :: "DirectusParticipant option"
  team_nominee :: "DirectusTeam option"
  submitted_by :: "DirectusUser option"
  ceremony :: "int option"

section \<open>Label helpers\<close>

text \<open>\<^verbatim>\<open>formatPersonName\<close> accepts any object with the two name fields, so it is defined
  on the record scheme: users and participants both fit.\<close>

definition formatPersonName :: "'a DirectusUser_scheme option \<Rightarrow> string" where
  "formatPersonName person =
     (case person of
        None \<Rightarrow> []
      | Some p \<Rightarrow>
          (let parts = filter (\<lambda>part. case part of None \<Rightarrow> False
                                        | Some s \<Rightarrow> s \<noteq> [] \<and> length (trim s) > 0)
                         [first_name p, last_name p]
           in join '' '' parts))"

definition getNomineeLabel :: "DirectusAwardRecord \<Rightarrow> string" where
  "getNomineeLabel award =
     (if award_type award = Some Individual \<and> participant_nominee award \<noteq> None then
        (let name = formatPersonName (participant_nominee award)
         in or_str name ''Individual nominee'')
      else if truthy_str (opt_chain (team_nominee award) team_name) then
        nullish (opt_chain (team_nominee award) team_name) []
      else ''Nominee TBD'')"

section \<open>Ceremony summary\<close>

record Metrics =
  pending :: nat
  approved :: nat
  individualsAwarded :: nat
  teamsAwarded :: nat

text \<open>The three projections of an award share their leading fields: the entry of the
  participant and team summary's pending queue, the entry of \<^verbatim>\<open>latestPending\<close> (which adds
  the submitter) and the entry of \<^verbatim>\<open>latestApproved\<close> (which adds the status as well).\<close>

record PendingAwardEntry =
  entry_id :: int
  categoryName :: string
  categoryColor :: string
  entry_type :: "AwardType option"
  nominee :: string
  submittedAt :: "string option"
  ceremonyId :: "int option"

record LatestPendingEntry = PendingAwardEntry +
  submittedBy :: string

record LatestApprovedEntry = LatestPendingEntry +
  entry_status :: string

record ColorCount =
  color :: string
  count :: nat

record CeremonySummary =
  metrics :: Metrics
  latestApproved :: "LatestApprovedEntry list"
  latestPending :: "LatestPendingEntry list"
  colorBreakdown :: "ColorCount list"

definition buildCeremonySummary :: "Date_parse \<Rightarrow> DirectusAwardRecord list \<Rightarrow> CeremonySummary" where
  "buildCeremonySummary parse awards =
     (let approvedAwards = filter (\<lambda>award. status award = ''approved'') awards;
          pendingCount = length (filter (\<lambda>award. status award = ''pending'') awards);
          approvedCount = length approvedAwards;
          latestApproved =
            map (\<lambda>award.
                  \<lparr> entry_id = award_id award,
                    categoryName = nullish (opt_chain (category award) category_name) ''Unknown category'',
                    categoryColor = nullish (opt_chain (category award) category_color) ''gray'',
                    entry_type = award_type award,
                    nominee = getNomineeLabel award,
                    submittedAt = nullish_opt (nullish_opt (approved_at award) (submitted_at award)) None,
                    ceremonyId = nullish_opt (ceremony award) None,
                    submittedBy = or_str (formatPersonName (submitted_by award)) ''Unknown referee'',
                    entry_status = status award \<rparr>)
              (take 5
                (Array_sort
                  (\<lambda>a b.
                     let dateA = or_zero (parse (nullish (nullish_opt (approved_at a) (submitted_at a)) []));
                         dateB = or_zero (parse (nullish (nullish_opt (approved_at b) (submitted_at b)) []))
                     in dateB - dateA)
                  approvedAwards));
          pendingAwards = filter (\<lambda>award. status award = ''pending'') awards;
          latestPending =
            map (\<lambda>award.
                  \<lparr> entry_id = award_id award,
                    categoryName = nullish (opt_chain (category award) category_name) ''Unknown category'',
                    categoryColor = nullish (opt_chain (category award) category_color) ''gray'',
                    entry_type = award_type award,
                    nominee = getNomineeLabel award,
                    submittedAt = nullish_opt (submitted_at award) None,
                    ceremonyId = nullish_opt (ceremony award) None,
                    submittedBy = or_str (formatPersonName (submitted_by award)) ''Unknown referee'' \<rparr>)
              (take 5
                (Array_sort
                  (\<lambda>a b.
                     let dateA = or_zero (parse (nullish (submitted_at a) []));
                         dateB = or_zero (parse (nullish (submitted_at b) []))
                     in dateB - dateA)
                  pendingAwards));
          uniqueParticipants =
            new_Set
              (filter (\<lambda>name. length name > 0)
                (map (\<lambda>award. formatPersonName (participant_nominee award))
                  (filter (\<lambda>award. award_type award = Some Individual) approvedAwards)));
          uniqueTeams =
            new_Set
              (filter (\<lambda>name. length name > 0)
                (map (\<lambda>award. nullish (opt_chain (team_nominee award) team_name) [])
                  (filter (\<lambda>award. truthy_str (opt_chain (team_nominee award) team_name))
                    approvedAwards)));
          colorMap =
            fold (\<lambda>award colorMap.
                    let color = nullish (opt_chain (category award) category_color) ''gray''
                    in Map_set colorMap color (nullish (Map_get colorMap color) 0 + 1))
              approvedAwards []
      in \<lparr> metrics =
             \<lparr> pending = pendingCount,
               approved = approvedCount,
               individualsAwarded = length uniqueParticipants,
               teamsAwarded = length uniqueTeams \<rparr>,
           latestApproved = latestApproved,
           latestPending = latestPending,
           colorBreakdown = map (\<lambda>(color, count). \<lparr> color = color, count = count \<rparr>) colorMap \<rparr>)"

section \<open>Pending queue of the participant and team summary\<close>

text \<open>
  \<^verbatim>\<open>buildParticipantTeamSummary\<close> returns its \<^verbatim>\<open>pendingAwards\<close> field as computed from
  the award list alone: the pending awards, projected, then sorted by submission time,
  latest first. Its other fields are accumulated from the approved awards and do not
  enter this one. \<open>pendingAwardEntry\<close> is the callback of the \<^verbatim>\<open>map\<close>.
\<close>

definition pendingAwardEntry :: "DirectusAwardRecord \<Rightarrow> PendingAwardEntry" where
  "pendingAwardEntry award =
     \<lparr> entry_id = award_id award,
       categoryName = nullish (opt_chain (category award) category_name) ''Unknown category'',
       categoryColor = nullish (opt_chain (category award) category_color) ''gray'',
       entry_type = award_type award,
       nominee =
         (if award_type award = Some Individual
          then or_str (formatPersonName (participant_nominee award)) ''Individual nominee''
          else nullish (opt_chain (team_nominee award) team_name) ''Team nominee''),
       submittedAt = nullish_opt (submitted_at award) None,
       ceremonyId = nullish_opt (ceremony award) None \<rparr>"

definition buildParticipantTeamSummary_pendingAwards ::
    "Date_parse \<Rightarrow> DirectusAwardRecord list \<Rightarrow> PendingAwardEntry list" where
  "buildParticipantTeamSummary_pendingAwards parse awards =
     Array_sort
       (\<lambda>a b.
          let dateA = or_zero (parse (nullish (submittedAt a) []));
              dateB = or_zero (parse (nullish (submittedAt b) []))
          in dateB - dateA)
       (map pendingAwardEntry (filter (\<lambda>award. status award = ''pending'') awards))"

section \<open>Requests to the content store\<close>

text \<open>
  A JSON value; numbers are the integers (identifiers are integers, and
  \<^verbatim>\<open>JSON.parse\<close> never yields NaN, so that 0 is the only falsy number). An object keeps
  its keys in insertion order.
\<close>

datatype json =
    JNull
  | JBool bool
  | JNum int
  | JStr string
  | JArr "json list"
  | JObj "(string \<times> json) list"

text \<open>
  \<^verbatim>\<open>String(n)\<close> prints a safe integer, one of absolute value at most \<open>2\<^sup>5\<^sup>3 - 1\<close>, as
  its decimal digits. A number outside that range is printed by the platform's
  number-to-string conversion, rounded and from \<open>10\<^sup>2\<^sup>1\<close> on in exponent notation: that
  conversion is the parameter \<open>toString\<close> of the functions that print a number.
\<close>

type_synonym Number_toString = "int \<Rightarrow> string"

fun string_of_nat :: "nat \<Rightarrow> string" where
  "string_of_nat n =
     (if n < 10 then [char_of (48 + n)]
      else string_of_nat (n div 10) @ [char_of (48 + n mod 10)])"

declare string_of_nat.simps [simp del]

definition String_of_number :: "Number_toString \<Rightarrow> int \<Rightarrow> string" where
  "String_of_number toString i =
     (if \<bar>i\<bar> \<le> 9007199254740991 then
        (if i < 0 then CHR ''-'' # string_of_nat (nat (- i)) else string_of_nat (nat i))
      else toString i)"

definition status_string :: "AwardStatus \<Rightarrow> string" where
  "status_string st =
     (case st of Pending \<Rightarrow> ''pending'' | Approved \<Rightarrow> ''approved'' | Rejected \<Rightarrow> ''rejected'')"

text \<open>
  What can go wrong in a request: the two configuration errors that
  \<^verbatim>\<open>getDirectusBaseUrl\<close> and \<^verbatim>\<open>getDirectusHeaders\<close> throw, a rejected \<^verbatim>\<open>fetch\<close>,
  a response that is not ok (with its status and its text, or its status text when the
  text is empty), and a body that \<^verbatim>\<open>response.json()\<close> cannot read.
\<close>

datatype error =
    Error string
  | FetchRejected
  | DirectusRequestFailed nat string
  | InvalidJson

record env =
  DIRECTUS_URL :: "string option"
  DIRECTUS_STATIC_TOKEN :: "string option"

record RequestInit =
  init_method :: "string option"
  init_headers :: "(string \<times> string) list option"
  init_body :: "(string \<times> json) list option"

record request =
  request_url :: string
  request_method :: "string option"
  request_headers :: "(string \<times> string) list"
  request_body :: "(string \<times> json) list option"
  request_cache :: string

text \<open>The response of \<^verbatim>\<open>fetch\<close>; \<open>body_json\<close> is what \<^verbatim>\<open>response.json()\<close> resolves to, typed
  as the caller's cast says, and \<^const>\<open>None\<close> when it rejects.\<close>

record 'r response =
  ok :: bool
  response_status :: nat
  statusText :: string
  body_text :: string
  body_json :: "'r option"

record 'a DirectusSingleResponse =
  data :: 'a

text \<open>
  \<^verbatim>\<open>fetch\<close> is the only access to the store. It is a parameter: it takes the request and
  the state of the world \<open>'s\<close> (the store with its awards) and returns a response or a
  rejection, and the new state.
\<close>

type_synonym ('r, 's) fetch = "request \<Rightarrow> 's \<Rightarrow> (error + 'r response) \<times> 's"

definition getDirectusBaseUrl :: "env \<Rightarrow> error + string" where
  "getDirectusBaseUrl e =
     (if \<not> truthy_str (DIRECTUS_URL e) then
        Inl (Error ''DIRECTUS_URL is not defined. Please set it in your environment variables.'')
      else
        (let u = nullish (DIRECTUS_URL e) []
         in Inr (if u \<noteq> [] \<and> last u = CHR ''/'' then butlast u else u)))"

definition getDirectusHeaders :: "env \<Rightarrow> error + (string \<times> string) list" where
  "getDirectusHeaders e =
     (if \<not> truthy_str (DIRECTUS_STATIC_TOKEN e) then
        Inl (Error ''DIRECTUS_STATIC_TOKEN is not defined. Please set it in your environment variables.'')
      else
        Inr [(''Authorization'', ''Bearer '' @ nullish (DIRECTUS_STATIC_TOKEN e) []),
             (''Content-Type'', ''application/json'')])"

text \<open>The base URL is computed first, the headers while the arguments of \<^verbatim>\<open>fetch\<close> are
  built; either can throw before anything is sent. Object spread is a sequence of
  \<^const>\<open>Map_set\<close>.\<close>

definition directusFetch ::
    "env \<Rightarrow> ('r, 's) fetch \<Rightarrow> string \<Rightarrow> RequestInit option \<Rightarrow> 's \<Rightarrow> (error + 'r) \<times> 's" where
  "directusFetch e fetch path init s =
     (case getDirectusBaseUrl e of
        Inl err \<Rightarrow> (Inl err, s)
      | Inr baseUrl \<Rightarrow>
          (case getDirectusHeaders e of
             Inl err \<Rightarrow> (Inl err, s)
           | Inr directusHeaders \<Rightarrow>
               (case fetch
                       \<lparr> request_url = baseUrl @ ''/'' @ path,
                         request_method = opt_chain init init_method,
                         request_headers =
                           fold (\<lambda>(k, v) h. Map_set h k v)
                             (nullish (opt_chain init init_headers) []) directusHeaders,
                         request_body = opt_chain init init_body,
                         request_cache = ''no-store'' \<rparr> s of
                  (Inl err, s') \<Rightarrow> (Inl err, s')
                | (Inr response, s') \<Rightarrow>
                    if \<not> ok response then
                      (let message = body_text response
                       in (Inl (DirectusRequestFailed (response_status response)
                                  (or_str message (statusText response))), s'))
                    else
                      (case body_json response of
                         None \<Rightarrow> (Inl InvalidJson, s')
                       | Some v \<Rightarrow> (Inr v, s')))))"

text \<open>\<^verbatim>\<open>new Date().toISOString()\<close> reads the clock: the current time is the parameter
  \<open>now\<close>. The body of a request is kept as the payload object that
  \<^verbatim>\<open>JSON.stringify\<close> prints.\<close>

definition updateAwardStatus_payload :: "string \<Rightarrow> AwardStatus \<Rightarrow> (string \<times> json) list" where
  "updateAwardStatus_payload now st =
     (let payload = [(''status'', JStr (status_string st))]
      in if st = Approved then Map_set payload ''approved_at'' (JStr now)
         else Map_set payload ''approved_at'' JNull)"

definition updateAwardStatus ::
    "env \<Rightarrow> (DirectusAwardRecord DirectusSingleResponse, 's) fetch \<Rightarrow> Number_toString \<Rightarrow> string
      \<Rightarrow> int \<Rightarrow> AwardStatus \<Rightarrow> 's \<Rightarrow> (error + DirectusAwardRecord) \<times> 's" where
  "updateAwardStatus e fetch toString now awardId st s =
     (case directusFetch e fetch (''items/awards/'' @ String_of_number toString awardId)
             (Some \<lparr> init_method = Some ''PATCH'', init_headers = None,
                     init_body = Some (updateAwardStatus_payload now st) \<rparr>) s of
        (Inl err, s') \<Rightarrow> (Inl err, s')
      | (Inr response, s') \<Rightarrow> (Inr (data response), s'))"

definition approveAward ::
    "env \<Rightarrow> (DirectusAwardRecord DirectusSingleResponse, 's) fetch \<Rightarrow> Number_toString \<Rightarrow> string
      \<Rightarrow> int \<Rightarrow> 's \<Rightarrow> (error + DirectusAwardRecord) \<times> 's" where
  "approveAward e fetch toString now awardId s =
     updateAwardStatus e fetch toString now awardId Approved s"

text \<open>
  The input of \<^verbatim>\<open>createAward\<close>. Its type field is declared as one of the three award
  types, but the creation handler passes the value of the request body under an unchecked
  cast, and \<^verbatim>\<open>createAward\<close> copies it into the payload as it is: the field holds a JSON
  value.
\<close>

record CreateAwardInput =
  input_category :: int
  input_ceremony :: int
  input_type :: json
  input_participant_nominee :: "int option"
  input_team_nominee :: "int option"
  input_notes :: "string option"
  input_status :: "AwardStatus option"

definition json_number_or_null :: "int option \<Rightarrow> json" where
  "json_number_or_null n = (case n of None \<Rightarrow> JNull | Some i \<Rightarrow> JNum i)"

definition createAward_payload :: "string \<Rightarrow> CreateAwardInput \<Rightarrow> (string \<times> json) list" where
  "createAward_payload now input =
     (let payload =
            [(''category'', JNum (input_category input)),
             (''ceremony'', JNum (input_ceremony input)),
             (''type'', input_type input),
             (''participant_nominee'', json_number_or_null (nullish_opt (input_participant_nominee input) None)),
             (''team_nominee'', json_number_or_null (nullish_opt (input_team_nominee input) None)),
             (''status'', JStr (nullish (map_option status_string (input_status input)) ''pending'')),
             (''submitted_at'', JStr now)]
      in if truthy_str (input_notes input) \<and> length (trim (nullish (input_notes input) [])) > 0
         then Map_set payload ''notes'' (JStr (nullish (input_notes input) []))
         else payload)"

definition createAward ::
    "env \<Rightarrow> (DirectusAwardRecord DirectusSingleResponse, 's) fetch \<Rightarrow> string \<Rightarrow> CreateAwardInput
      \<Rightarrow> 's \<Rightarrow> (error + DirectusAwardRecord) \<times> 's" where
  "createAward e fetch now input s =
     (case directusFetch e fetch ''items/awards''
             (Some \<lparr> init_method = Some ''POST'', init_headers = None,
                     init_body = Some (createAward_payload now input) \<rparr>) s of
        (Inl err, s') \<Rightarrow> (Inl err, s')
      | (Inr response, s') \<Rightarrow> (Inr (data response), s'))"

section \<open>The award creation handler\<close>

text \<open>
  The handler reads its input with \<^verbatim>\<open>request.json()\<close>, which rejects when the body of the
  request is not JSON: the input is a \<^typ>\<open>json option\<close>, \<^const>\<open>None\<close> for such a body.
  The value is cast to a record of unknown fields without a check, so it is any JSON
  value. Reading a property of null throws; an object gives the value under the key, and
  undefined (\<^const>\<open>None\<close>) when it has no such key; a number, a string, a boolean and an
  array have none of the keys that the handler reads. When the text of an object repeats a
  key, \<^verbatim>\<open>JSON.parse\<close> keeps the last value, so the members are searched from the end.
\<close>

definition property :: "json \<Rightarrow> string \<Rightarrow> json option" where
  "property body k = (case body of JObj members \<Rightarrow> map_of (rev members) k | _ \<Rightarrow> None)"

text \<open>\<^verbatim>\<open>typeof v === "number" ? v : null\<close>\<close>

definition number_or_null :: "json option \<Rightarrow> int option" where
  "number_or_null v = (case v of Some (JNum n) \<Rightarrow> Some n | _ \<Rightarrow> None)"

text \<open>\<^verbatim>\<open>!n\<close> on a \<^verbatim>\<open>number | null\<close>: null and 0 are falsy. \<^verbatim>\<open>Number.isNaN\<close> is false
  on null and on every integer.\<close>

definition falsy_number :: "int option \<Rightarrow> bool" where
  "falsy_number n = (case n of None \<Rightarrow> True | Some i \<Rightarrow> i = 0)"

definition Number_isNaN :: "int option \<Rightarrow> bool" where
  "Number_isNaN n = False"

text \<open>Truthiness of a value of unknown type: undefined, null, false, 0 and the empty
  string are falsy, everything else is truthy, arrays and objects included.\<close>

definition truthy :: "json option \<Rightarrow> bool" where
  "truthy v =
     (case v of
        None \<Rightarrow> False
      | Some JNull \<Rightarrow> False
      | Some (JBool b) \<Rightarrow> b
      | Some (JNum n) \<Rightarrow> n \<noteq> 0
      | Some (JStr str) \<Rightarrow> str \<noteq> []
      | Some (JArr xs) \<Rightarrow> True
      | Some (JObj members) \<Rightarrow> True)"

definition ceremonyId_of :: "json \<Rightarrow> int option" where
  "ceremonyId_of body =
     nullish_opt (number_or_null (property body ''ceremonyId''))
       (number_or_null (property body ''ceremony''))"

definition categoryId_of :: "json \<Rightarrow> int option" where
  "categoryId_of body =
     nullish_opt (number_or_null (property body ''categoryId''))
       (number_or_null (property body ''category''))"

definition participantId_of :: "json \<Rightarrow> int option" where
  "participantId_of body =
     nullish_opt (number_or_null (property body ''participantId''))
       (number_or_null (property body ''participant_nominee''))"

definition teamId_of :: "json \<Rightarrow> int option" where
  "teamId_of body =
     nullish_opt (number_or_null (property body ''teamId''))
       (number_or_null (property body ''team_nominee''))"

definition notes_of :: "Number_toString \<Rightarrow> json \<Rightarrow> string option" where
  "notes_of toString body =
     (case property body ''notes'' of
        Some (JStr n) \<Rightarrow> Some n
      | Some (JNum n) \<Rightarrow> Some (String_of_number toString n)
      | _ \<Rightarrow> None)"

datatype reply_body = Message string | Award DirectusAwardRecord

record reply =
  reply_status :: nat
  reply_body :: reply_body

text \<open>
  What the handler throws to its caller, outside its \<^verbatim>\<open>try\<close> block: the rejection of
  \<^verbatim>\<open>request.json()\<close> and the type error of reading a property of null.
\<close>

datatype thrown = SyntaxError | TypeError

text \<open>
  The handler. \<^verbatim>\<open>body.type\<close> is read under a cast that checks nothing, so \<open>type\<close> is the
  JSON value of the body. The \<^verbatim>\<open>console.error\<close> line in the \<^verbatim>\<open>catch\<close> block writes to
  the log only and is left out. After the three guards the identifiers are numbers and
  the type is defined, which is where \<^const>\<open>the\<close> reads them.
\<close>

definition POST ::
    "env \<Rightarrow> (DirectusAwardRecord DirectusSingleResponse, 's) fetch \<Rightarrow> Number_toString \<Rightarrow> string
      \<Rightarrow> json option \<Rightarrow> 's \<Rightarrow> (thrown + reply) \<times> 's" where
  "POST e fetch toString now request_json s =
     (case request_json of
        None \<Rightarrow> (Inl SyntaxError, s)
      | Some body \<Rightarrow>
          if body = JNull then (Inl TypeError, s)
          else
            (let ceremonyId = ceremonyId_of body;
                 categoryId = categoryId_of body;
                 type = property body ''type'';
                 participantId = participantId_of body;
                 teamId = teamId_of body;
                 notes = notes_of toString body
             in
               if falsy_number ceremonyId \<or> falsy_number categoryId \<or> \<not> truthy type then
                 (Inr \<lparr> reply_status = 400,
                        reply_body = Message ''Missing ceremony, category, or type information.'' \<rparr>,
                  s)
               else if type = Some (JStr ''individual'')
                       \<and> (falsy_number participantId \<or> Number_isNaN participantId) then
                 (Inr \<lparr> reply_status = 400,
                        reply_body = Message ''Participant award requires a participant nominee.'' \<rparr>,
                  s)
               else if type \<noteq> Some (JStr ''individual'')
                       \<and> (falsy_number teamId \<or> Number_isNaN teamId) then
                 (Inr \<lparr> reply_status = 400,
                        reply_body = Message ''Team or overall award requires a team nominee.'' \<rparr>,
                  s)
               else
                 (case createAward e fetch now
                         \<lparr> input_category = the categoryId,
                           input_ceremony = the ceremonyId,
                           input_type = the type,
                           input_participant_nominee =
                             (if type = Some (JStr ''individual'')
                              then nullish_opt participantId None else None),
                           input_team_nominee =
                             (if type = Some (JStr ''individual'')
                              then None else nullish_opt teamId None),
                           input_notes = notes,
                           input_status = None \<rparr> s of
                    (Inr award, s') \<Rightarrow>
                      (Inr \<lparr> reply_status = 201, reply_body = Award award \<rparr>, s')
                  | (Inl err, s') \<Rightarrow>
                      (Inr \<lparr> reply_status = 500,
                             reply_body = Message ''Failed to create award.'' \<rparr>, s'))))"

section \<open>Notions used to state the properties\<close>

text \<open>
  The color under which an approved award is counted: the color of its category, and
  gray when the award has no category or the category has no color.
\<close>

definition awardColor :: "DirectusAwardRecord \<Rightarrow> string" where
  "awardColor a =
     (case category a of
        None \<Rightarrow> ''gray''
      | Some c \<Rightarrow> (case category_color c of None \<Rightarrow> ''gray'' | Some col \<Rightarrow> col))"

text \<open>
  The statuses that the summaries count: an award of any other status is neither pending,
  nor approved, nor rejected.
\<close>

definition known_status :: "string \<Rightarrow> bool" where
  "known_status st = (st = ''pending'' \<or> st = ''approved'' \<or> st = ''rejected'')"

text \<open>
  The timestamp shown for an approved award: the approval time when there is one,
  the submission time otherwise.
\<close>

definition displayTimestamp :: "DirectusAwardRecord \<Rightarrow> string option" where
  "displayTimestamp a = (case approved_at a of Some t \<Rightarrow> Some t | None \<Rightarrow> submitted_at a)"

text \<open>
  The time value of a timestamp as the properties word it: a missing timestamp and one
  that does not parse count as 0, the epoch.
\<close>

definition timeValue :: "Date_parse \<Rightarrow> string option \<Rightarrow> int" where
  "timeValue parse ts =
     (case ts of None \<Rightarrow> 0 | Some s \<Rightarrow> (case parse s of None \<Rightarrow> 0 | Some ms \<Rightarrow> ms))"

text \<open>
  The sort key as the comparators compute it, \<^verbatim>\<open>Date.parse(ts ?? "") || 0\<close>: a missing
  timestamp is parsed as the empty string.
\<close>

definition sortTime :: "Date_parse \<Rightarrow> string option \<Rightarrow> int" where
  "sortTime parse ts = or_zero (parse (nullish ts []))"

text \<open>
  A \<^verbatim>\<open>fetch\<close> that records the requests it is given, in order, next to the state of the
  world. Running a function with \<open>logging fetch\<close> from an empty log shows exactly the
  requests that function sends, whatever \<open>fetch\<close> answers.
\<close>

definition logging :: "('r, 's) fetch \<Rightarrow> ('r, 's \<times> request list) fetch" where
  "logging fetch req = (\<lambda>(s, log). case fetch req s of (r, s') \<Rightarrow> (r, (s', log @ [req])))"

text \<open>
  The validation condition in the words of the interface description: an identifier or
  the type is missing, or the nominee identifier that the type calls for is missing.
\<close>

definition claimed_validation_failure :: "json \<Rightarrow> bool" where
  "claimed_validation_failure body =
     (ceremonyId_of body = None \<or> categoryId_of body = None
      \<or> property body ''type'' = None \<or> property body ''type'' = Some JNull
      \<or> (property body ''type'' = Some (JStr ''individual'') \<and> participantId_of body = None)
      \<or> ((property body ''type'' = Some (JStr ''team'')
           \<or> property body ''type'' = Some (JStr ''overall''))
          \<and> teamId_of body = None))"

text \<open>
  The validation condition of the handler. Its guards test for truthiness, so the
  identifier 0 is refused like a missing one, and so is a type that is null, false, 0 or
  the empty string. Only the string "individual" calls for a participant; every other
  type, known or not, calls for a team.
\<close>

definition missing_or_zero :: "int option \<Rightarrow> bool" where
  "missing_or_zero n = (n = None \<or> n = Some 0)"

definition missing_or_falsy :: "json option \<Rightarrow> bool" where
  "missing_or_falsy v =
     (v = None \<or> v = Some JNull \<or> v = Some (JBool False) \<or> v = Some (JNum 0) \<or> v = Some (JStr []))"

definition validation_failure :: "json \<Rightarrow> bool" where
  "validation_failure body =
     (missing_or_zero (ceremonyId_of body) \<or> missing_or_zero (categoryId_of body)
      \<or> missing_or_falsy (property body ''type'')
      \<or> (property body ''type'' = Some (JStr ''individual'')
          \<and> missing_or_zero (participantId_of body))
      \<or> (property body ''type'' \<noteq> Some (JStr ''individual'')
          \<and> missing_or_zero (teamId_of body)))"

text \<open>The status of the reply, when the handler replies.\<close>

definition replied_status :: "(thrown + reply) \<times> 's \<Rightarrow> nat option" where
  "replied_status r = (case fst r of Inl t \<Rightarrow> None | Inr rep \<Rightarrow> Some (reply_status rep))"

section \<open>Example data\<close>

text \<open>
  A clock-free \<^verbatim>\<open>Date.parse\<close> on three dates, a configured environment, a store that
  answers every request with one award, five awards (two approved individual awards of
  two participants with the same name, an approved team award without category and dates,
  a pending team award without team, a rejected award), the same five with a draft award
  added, a number printer for the numbers beyond the safe integers, and request bodies.
\<close>

definition example_parse :: Date_parse where
  "example_parse s =
     (if s = ''05-01'' then Some 1714521600000
      else if s = ''05-02'' then Some 1714608000000
      else if s = ''05-03'' then Some 1714694400000
      else None)"

definition example_award :: DirectusAwardRecord where
  "example_award =
     \<lparr> award_id = 1, status = ''approved'', award_type = Some Individual,
       submitted_at = Some ''05-01'', approved_at = Some ''05-02'',
       category = Some \<lparr> category_name = Some ''Spirit'', category_color = Some ''green'' \<rparr>,
       participant_nominee =
         Some \<lparr> first_name = Some ''Ann'', last_name = Some ''Le'', participant_id = Some 1 \<rparr>,
       team_nominee = None,
       submitted_by = Some \<lparr> first_name = Some ''Bo'', last_name = None \<rparr>,
       ceremony = Some 2 \<rparr>"

definition example_awards :: "DirectusAwardRecord list" where
  "example_awards =
     [example_award,
      example_award \<lparr> award_id := 2, approved_at := None, submitted_at := Some ''05-03'',
        participant_nominee :=
          Some \<lparr> first_name = Some ''Ann'', last_name = Some ''Le'', participant_id = Some 9 \<rparr> \<rparr>,
      example_award \<lparr> award_id := 3, award_type := Some Team, approved_at := None,
        submitted_at := None, category := None, participant_nominee := None,
        team_nominee := Some \<lparr> team_id = Some 4, team_name = Some ''Red'' \<rparr>,
        submitted_by := None \<rparr>,
      example_award \<lparr> award_id := 4, status := ''pending'', award_type := Some Team,
        approved_at := None, participant_nominee := None \<rparr>,
      example_award \<lparr> award_id := 5, status := ''rejected'', approved_at := None \<rparr>]"

definition draft_awards :: "DirectusAwardRecord list" where
  "draft_awards = example_awards @ [example_award \<lparr> award_id := 7, status := ''draft'' \<rparr>]"

definition example_team_pending :: DirectusAwardRecord where
  "example_team_pending =
     example_award \<lparr> award_id := 4, status := ''pending'', award_type := Some Team,
       approved_at := None, participant_nominee := None \<rparr>"

definition example_individual_pending :: DirectusAwardRecord where
  "example_individual_pending =
     example_award \<lparr> award_id := 6, status := ''pending'', approved_at := None,
       participant_nominee := None \<rparr>"

definition example_env :: env where
  "example_env = \<lparr> DIRECTUS_URL = Some ''https://cms.example/'', DIRECTUS_STATIC_TOKEN = Some ''secret'' \<rparr>"

definition example_fetch :: "(DirectusAwardRecord DirectusSingleResponse, unit) fetch" where
  "example_fetch req s =
     (Inr \<lparr> ok = True, response_status = 200, statusText = ''OK'', body_text = [],
            body_json = Some \<lparr> data = example_award \<rparr> \<rparr>, s)"

definition example_input :: CreateAwardInput where
  "example_input =
     \<lparr> input_category = 3, input_ceremony = 2, input_type = JStr ''team'',
       input_participant_nominee = None, input_team_nominee = Some 4,
       input_notes = Some ''  '', input_status = None \<rparr>"

definition example_toString :: Number_toString where
  "example_toString i = ''1e+21''"

definition example_body :: json where
  "example_body =
     JObj [(''ceremonyId'', JNum 2), (''categoryId'', JNum 3), (''type'', JStr ''team''),
           (''teamId'', JNum 4), (''notes'', JStr ''well played'')]"

definition zero_ceremony_body :: json where
  "zero_ceremony_body =
     JObj [(''ceremonyId'', JNum 0), (''categoryId'', JNum 3), (''type'', JStr ''team''),
           (''teamId'', JNum 4), (''notes'', JStr ''well played'')]"

definition unknown_type_body :: json where
  "unknown_type_body =
     JObj [(''ceremonyId'', JNum 2), (''categoryId'', JNum 3), (''type'', JStr ''banana'')]"

definition no_team_body :: json where
  "no_team_body =
     JObj [(''ceremonyId'', JNum 2), (''categoryId'', JNum 3), (''type'', JStr ''team''),
           (''notes'', JStr ''well played'')]"

text \<open>
  A \<^verbatim>\<open>Date.parse\<close> that knows one date before the epoch, an approved award of that date,
  and an approved award without dates.
\<close>

definition epoch_parse :: Date_parse where
  "epoch_parse s = (if s = ''1969-12-31'' then Some (- 86400000) else None)"

definition dated_award :: DirectusAwardRecord where
  "dated_award = example_award \<lparr> award_id := 6, approved_at := Some ''1969-12-31'' \<rparr>"

definition undated_award :: "int \<Rightarrow> DirectusAwardRecord" where
  "undated_award n = example_award \<lparr> award_id := n, submitted_at := None, approved_at := None \<rparr>"

definition undated_awards :: "DirectusAwardRecord list" where
  "undated_awards = dated_award # map undated_award [1, 2, 3, 4, 5]"

section \<open>Properties of the label helpers\<close>

text \<open>
  C7. The nominee label is defined for every award record, whatever relations are
  missing or malformed. It is the formatted participant name when the type is individual
  and a participant nominee is present, or "Individual nominee" when that name is empty;
  otherwise the team nominee's name when that is present and not empty; otherwise
  "Nominee TBD". In particular the label is never empty.
\<close>

theorem getNomineeLabel_total_cases:
  "getNomineeLabel award =
     (if award_type award = Some Individual \<and> participant_nominee award \<noteq> None then
        (if formatPersonName (participant_nominee award) = [] then ''Individual nominee''
         else formatPersonName (participant_nominee award))
      else
        (case team_nominee award of
           None \<Rightarrow> ''Nominee TBD''
         | Some t \<Rightarrow>
             (case team_name t of
                None \<Rightarrow> ''Nominee TBD''
              | Some n \<Rightarrow> if n = [] then ''Nominee TBD'' else n)))
   \<and> getNomineeLabel award \<noteq> []"
  by (auto simp: getNomineeLabel_def or_str_def truthy_str_def opt_chain_def nullish_def
      split: option.splits)

section \<open>Facts about the JavaScript containers and the sort\<close>

text \<open>
  With a comparator that subtracts keys, the stable insertion sort is the library's stable
  \<^const>\<open>sort_key\<close> on the negated key.
\<close>

lemma insort_cmp_key:
  "insort_cmp (\<lambda>a b. k b - k a) x ys = insort_key (\<lambda>a. - k a) x ys"
  by (induction ys) auto

lemma Array_sort_key:
  "Array_sort (\<lambda>a b. k b - k a) xs = sort_key (\<lambda>a. - k a) xs"
  by (induction xs) (auto simp: Array_sort_def insort_cmp_key)




lemma top_spec:
  fixes f :: "'a \<Rightarrow> int" and xs :: "'a list"
  defines "s \<equiv> sort_key f xs"
  shows "mset (take n s @ drop n s) = mset xs"
    and "length (take n s) = min n (length xs)"
    and "sorted (map f (take n s))"
    and "\<forall>a \<in> set (take n s). \<forall>b \<in> set (drop n s). f a \<le> f b"
proof -
  show "mset (take n s @ drop n s) = mset xs" by (simp add: s_def)
  show "length (take n s) = min n (length xs)" by (simp add: s_def min.commute)
  have "sorted (map f (take n s @ drop n s))" by (simp add: s_def)
  then have *: "sorted (map f (take n s) @ map f (drop n s))" by (simp only: map_append)
  from * show "sorted (map f (take n s))" by (simp only: sorted_append)
  from * show "\<forall>a \<in> set (take n s). \<forall>b \<in> set (drop n s). f a \<le> f b"
    by (auto simp only: sorted_append set_map)
qed

text \<open>
  The size of a \<^verbatim>\<open>Set\<close> built from a list is the number of distinct elements.
\<close>

lemma fold_Set_add:
  "distinct acc \<Longrightarrow>
   distinct (fold (\<lambda>x s. Set_add s x) xs acc) \<and>
   set (fold (\<lambda>x s. Set_add s x) xs acc) = set acc \<union> set xs"
  by (induction xs arbitrary: acc) (auto simp: Set_add_def)

lemma length_new_Set: "length (new_Set xs) = card (set xs)"
proof -
  have "distinct (new_Set xs)" and "set (new_Set xs) = set xs"
    using fold_Set_add [of "[]" xs] by (simp_all add: new_Set_def)
  then show ?thesis by (metis distinct_card)
qed

text \<open>
  Counting into a \<^verbatim>\<open>Map\<close>: keys stay distinct, every step adds one to the sum of the
  counts, and the count under a key is the number of elements with that key.
\<close>

lemma map_fst_Map_set:
  "map fst (Map_set m k v) = (if k \<in> fst ` set m then map fst m else map fst m @ [k])"
  by (induction m k v rule: Map_set.induct) auto

lemma map_of_Map_set:
  "map_of (Map_set m k v) = (map_of m)(k \<mapsto> v)"
  by (induction m k v rule: Map_set.induct) auto

lemma sum_Map_set:
  "sum_list (map snd (Map_set m k (Suc (nullish (map_of m k) 0)))) = Suc (sum_list (map snd m))"
  by (induction m) (auto simp: nullish_def)

lemma distinct_Map_set:
  "distinct (map fst m) \<Longrightarrow> distinct (map fst (Map_set m k v))"
  by (simp add: map_fst_Map_set)

lemma fold_colors_distinct:
  "distinct (map fst m) \<Longrightarrow>
   distinct (map fst (fold (\<lambda>a m. Map_set m (f a) (Suc (nullish (Map_get m (f a)) 0))) xs m))"
  by (induction xs arbitrary: m) (simp_all add: distinct_Map_set)

lemma fold_colors_sum:
  "sum_list (map snd (fold (\<lambda>a m. Map_set m (f a) (Suc (nullish (Map_get m (f a)) 0))) xs m))
   = sum_list (map snd m) + length xs"
  by (induction xs arbitrary: m) (simp_all add: Map_get_def sum_Map_set)

lemma fold_colors_lookup:
  "map_of (fold (\<lambda>a m. Map_set m (f a) (Suc (nullish (Map_get m (f a)) 0))) xs m) c
   = (if c \<in> f ` set xs
      then Some (nullish (map_of m c) 0 + length (filter (\<lambda>a. f a = c) xs))
      else map_of m c)"
  unfolding Map_get_def nullish_def
proof (induction xs arbitrary: m)
  case Nil
  show ?case by simp
next
  case (Cons a xs)
  show ?case
    by (auto simp: Cons.IH map_of_Map_set filter_empty_conv image_iff)
qed

lemma nullish_opt_None: "nullish_opt x None = x"
  by (simp add: nullish_opt_def split: option.splits)

section \<open>Properties of the ceremony summary\<close>

subsection \<open>Metrics\<close>

lemma status_partition:
  "length (filter (\<lambda>a. status a = ''pending'') xs) + length (filter (\<lambda>a. status a = ''approved'') xs)
   + length (filter (\<lambda>a. status a = ''rejected'') xs)
   = length (filter (\<lambda>a. known_status (status a)) xs)"
  by (induction xs) (auto simp: known_status_def)

lemma length_filter_eq_iff:
  "length (filter P xs) = length xs \<longleftrightarrow> (\<forall>x \<in> set xs. P x)"
proof (induction xs)
  case Nil
  show ?case by simp
next
  case (Cons x xs)
  have "length (filter P xs) \<le> length xs" by simp
  then have "length (filter P xs) \<noteq> Suc (length xs)" by linarith
  with Cons show ?case by simp
qed

lemma awardColor_eq:
  "nullish (opt_chain (category a) category_color) ''gray'' = awardColor a"
  by (simp add: awardColor_def nullish_def opt_chain_def split: option.splits)

lemma metrics_pending:
  "pending (metrics (buildCeremonySummary parse awards)) =
     length (filter (\<lambda>a. status a = ''pending'') awards)"
  by (simp add: buildCeremonySummary_def Let_def)

lemma metrics_approved:
  "approved (metrics (buildCeremonySummary parse awards)) =
     length (filter (\<lambda>a. status a = ''approved'') awards)"
  by (simp add: buildCeremonySummary_def Let_def)

lemma metrics_individualsAwarded:
  "individualsAwarded (metrics (buildCeremonySummary parse awards)) =
     card {n. n \<noteq> [] \<and> (\<exists>a \<in> set awards. status a = ''approved'' \<and> award_type a = Some Individual
                    \<and> formatPersonName (participant_nominee a) = n)}"
proof -
  have "set (filter (\<lambda>name. length name > 0)
          (map (\<lambda>award. formatPersonName (participant_nominee award))
            (filter (\<lambda>award. award_type award = Some Individual)
              (filter (\<lambda>award. status award = ''approved'') awards))))
        = {n. n \<noteq> [] \<and> (\<exists>a \<in> set awards. status a = ''approved'' \<and> award_type a = Some Individual
                    \<and> formatPersonName (participant_nominee a) = n)}"
    by auto
  then show ?thesis
    by (simp add: buildCeremonySummary_def Let_def length_new_Set)
qed

lemma metrics_teamsAwarded:
  "teamsAwarded (metrics (buildCeremonySummary parse awards)) =
     card {n. n \<noteq> [] \<and> (\<exists>a \<in> set awards. status a = ''approved''
                    \<and> (\<exists>t. team_nominee a = Some t \<and> team_name t = Some n))}"
proof -
  have "set (filter (\<lambda>name. length name > 0)
          (map (\<lambda>award. nullish (opt_chain (team_nominee award) team_name) [])
            (filter (\<lambda>award. truthy_str (opt_chain (team_nominee award) team_name))
              (filter (\<lambda>award. status award = ''approved'') awards))))
        = {n. n \<noteq> [] \<and> (\<exists>a \<in> set awards. status a = ''approved''
                    \<and> (\<exists>t. team_nominee a = Some t \<and> team_name t = Some n))}"
    (is "?L = ?R")
  proof (rule set_eqI)
    fix n
    show "n \<in> ?L \<longleftrightarrow> n \<in> ?R"
    proof
      assume "n \<in> ?L"
      then obtain a where a: "a \<in> set awards" "status a = ''approved''"
          "truthy_str (opt_chain (team_nominee a) team_name)"
          "n = nullish (opt_chain (team_nominee a) team_name) []"
        by auto
      from a(3) obtain t where "team_nominee a = Some t" "team_name t = Some n" "n \<noteq> []"
        using a(4) by (auto simp: nullish_def opt_chain_def truthy_str_def split: option.splits)
      with a(1,2) show "n \<in> ?R" by blast
    next
      assume "n \<in> ?R"
      then obtain a t where a: "n \<noteq> []" "a \<in> set awards" "status a = ''approved''"
          "team_nominee a = Some t" "team_name t = Some n"
        by blast
      then have "truthy_str (opt_chain (team_nominee a) team_name)"
          "nullish (opt_chain (team_nominee a) team_name) [] = n"
        by (simp_all add: nullish_def opt_chain_def truthy_str_def)
      with a(1,2,3) show "n \<in> ?L" by force
    qed
  qed
  then show ?thesis
    by (simp add: buildCeremonySummary_def Let_def length_new_Set)
qed

lemma example_metrics:
  "metrics (buildCeremonySummary example_parse example_awards) =
     \<lparr> pending = 1, approved = 3, individualsAwarded = 1, teamsAwarded = 1 \<rparr>"
  by code_simp

text \<open>
  An award whose status is none of the three is counted nowhere: with one draft award
  among six, the three counts add up to five.
\<close>

theorem status_partition_counterexample:
  "pending (metrics (buildCeremonySummary example_parse draft_awards))
   + approved (metrics (buildCeremonySummary example_parse draft_awards))
   + length (filter (\<lambda>a. status a = ''rejected'') draft_awards) = 5
   \<and> length draft_awards = 6"
  by (simp add: metrics_pending metrics_approved draft_awards_def example_awards_def
      example_award_def)

text \<open>
  C5, amended. For every award list, the pending count plus the approved count plus the
  number of rejected awards is the number of awards whose status is one of pending,
  approved and rejected: the three statuses are exclusive. The sum is at most the length
  of the list, and it is the length exactly when every award of the list has one of the
  three statuses.
\<close>

theorem status_partition_known:
  "pending (metrics (buildCeremonySummary parse awards))
   + approved (metrics (buildCeremonySummary parse awards))
   + length (filter (\<lambda>a. status a = ''rejected'') awards)
   = length (filter (\<lambda>a. known_status (status a)) awards)
   \<and> pending (metrics (buildCeremonySummary parse awards))
     + approved (metrics (buildCeremonySummary parse awards))
     + length (filter (\<lambda>a. status a = ''rejected'') awards)
     \<le> length awards
   \<and> (pending (metrics (buildCeremonySummary parse awards))
      + approved (metrics (buildCeremonySummary parse awards))
      + length (filter (\<lambda>a. status a = ''rejected'') awards)
      = length awards
      \<longleftrightarrow> (\<forall>a \<in> set awards. known_status (status a)))"
  by (simp add: metrics_pending metrics_approved status_partition length_filter_eq_iff)

theorem status_partition_known_witness:
  "list_all (\<lambda>a. known_status (status a)) example_awards
   \<and> pending (metrics (buildCeremonySummary example_parse example_awards))
     + approved (metrics (buildCeremonySummary example_parse example_awards))
     + length (filter (\<lambda>a. status a = ''rejected'') example_awards)
     = length example_awards"
proof -
  have "\<forall>a \<in> set example_awards. known_status (status a)"
    by (simp add: example_awards_def example_award_def known_status_def)
  then show ?thesis
    using status_partition_known [of example_parse example_awards] by (simp add: list_all_iff)
qed

text \<open>
  C2. \<^verbatim>\<open>individualsAwarded\<close> is the number of distinct non-empty formatted participant
  names among the approved awards of type individual (distinct as strings: two
  participants with the same formatted name count once), and \<^verbatim>\<open>teamsAwarded\<close> is the
  number of distinct non-empty team nominee names among all approved awards, whatever
  their type.
\<close>

theorem distinct_names_counted:
  "individualsAwarded (metrics (buildCeremonySummary parse awards)) =
     card {n. n \<noteq> [] \<and> (\<exists>a \<in> set awards. status a = ''approved'' \<and> award_type a = Some Individual
                    \<and> formatPersonName (participant_nominee a) = n)}
   \<and> teamsAwarded (metrics (buildCeremonySummary parse awards)) =
     card {n. n \<noteq> [] \<and> (\<exists>a \<in> set awards. status a = ''approved''
                    \<and> (\<exists>t. team_nominee a = Some t \<and> team_name t = Some n))}"
  by (simp add: metrics_individualsAwarded metrics_teamsAwarded)

text \<open>
  In the example the two approved individual awards go to participants 1 and 9, both
  named Ann Le: one name is counted.
\<close>

theorem distinct_names_counted_witness:
  "card {n. n \<noteq> [] \<and> (\<exists>a \<in> set example_awards. status a = ''approved'' \<and> award_type a = Some Individual
                    \<and> formatPersonName (participant_nominee a) = n)} = 1
   \<and> length (filter (\<lambda>a. status a = ''approved'' \<and> award_type a = Some Individual) example_awards) = 2"
proof -
  have "length (filter (\<lambda>a. status a = ''approved'' \<and> award_type a = Some Individual) example_awards) = 2"
    by (simp add: example_awards_def example_award_def)
  then show ?thesis
    using distinct_names_counted [of example_parse example_awards]
    by (simp add: example_metrics)
qed

subsection \<open>Color breakdown\<close>

lemma colorBreakdown_eq:
  "colorBreakdown (buildCeremonySummary parse awards) =
     map (\<lambda>(c, n). \<lparr> color = c, count = n \<rparr>)
       (fold (\<lambda>a m. Map_set m (awardColor a) (Suc (nullish (Map_get m (awardColor a)) 0)))
          (filter (\<lambda>a. status a = ''approved'') awards) [])"
  by (simp add: buildCeremonySummary_def Let_def awardColor_eq)

lemma colorMap_facts:
  fixes xs :: "DirectusAwardRecord list"
  defines "m \<equiv> fold (\<lambda>a m. Map_set m (awardColor a) (Suc (nullish (Map_get m (awardColor a)) 0))) xs []"
  shows "distinct (map fst m)"
    and "sum_list (map snd m) = length xs"
    and "fst ` set m = awardColor ` set xs"
    and "(c, n) \<in> set m \<Longrightarrow> n = length (filter (\<lambda>a. awardColor a = c) xs) \<and> 1 \<le> n"
proof -
  show d: "distinct (map fst m)"
    unfolding m_def by (rule fold_colors_distinct) simp
  show "sum_list (map snd m) = length xs"
    unfolding m_def by (simp add: fold_colors_sum)
  have look: "map_of m k = (if k \<in> awardColor ` set xs
      then Some (length (filter (\<lambda>a. awardColor a = k) xs)) else None)" for k
    unfolding m_def fold_colors_lookup by (simp add: nullish_def)
  show "fst ` set m = awardColor ` set xs"
  proof (rule set_eqI)
    fix k
    have "k \<in> fst ` set m \<longleftrightarrow> map_of m k \<noteq> None"
      by (simp add: map_of_eq_None_iff)
    then show "k \<in> fst ` set m \<longleftrightarrow> k \<in> awardColor ` set xs"
      by (simp add: look)
  qed
  assume "(c, n) \<in> set m"
  with d have "map_of m c = Some n" by simp
  then have in_img: "c \<in> awardColor ` set xs" and n: "n = length (filter (\<lambda>a. awardColor a = c) xs)"
    by (simp_all add: look split: if_splits)
  from in_img have "filter (\<lambda>a. awardColor a = c) xs \<noteq> []"
    by (auto simp: filter_empty_conv)
  with n show "n = length (filter (\<lambda>a. awardColor a = c) xs) \<and> 1 \<le> n"
    by (simp add: Suc_le_eq)
qed

lemma colorBreakdown_facts:
  fixes parse awards
  defines "S \<equiv> buildCeremonySummary parse awards"
  shows "distinct (map color (colorBreakdown S))"
    and "\<forall>e \<in> set (colorBreakdown S).
           1 \<le> count e
           \<and> count e = length (filter (\<lambda>a. status a = ''approved'' \<and> awardColor a = color e) awards)"
    and "sum_list (map count (colorBreakdown S)) = approved (metrics S)"
    and "color ` set (colorBreakdown S) = awardColor ` {a \<in> set awards. status a = ''approved''}"
proof -
  define xs where "xs = filter (\<lambda>a. status a = ''approved'') awards"
  define m where "m = fold (\<lambda>a m. Map_set m (awardColor a) (Suc (nullish (Map_get m (awardColor a)) 0))) xs []"
  define cb where "cb = colorBreakdown (buildCeremonySummary parse awards)"
  have cb: "cb = map (\<lambda>(c, n). \<lparr> color = c, count = n \<rparr>) m"
    by (simp add: cb_def m_def xs_def colorBreakdown_eq)
  have colors: "map color cb = map fst m" and counts: "map count cb = map snd m"
    by (simp_all add: cb case_prod_unfold)
  have 1: "distinct (map color cb)"
    unfolding colors m_def by (rule colorMap_facts(1))
  have 2: "sum_list (map count cb) = approved (metrics (buildCeremonySummary parse awards))"
    unfolding counts m_def by (simp add: colorMap_facts(2) metrics_approved xs_def)
  have 3: "color ` set cb = awardColor ` {a \<in> set awards. status a = ''approved''}"
  proof -
    have "color ` set cb = set (map color cb)" by simp
    also have "\<dots> = fst ` set m" by (simp add: colors)
    also have "\<dots> = awardColor ` set xs" unfolding m_def by (rule colorMap_facts(3))
    finally show ?thesis by (simp add: xs_def)
  qed
  have 4: "1 \<le> count e \<and> count e = length (filter (\<lambda>a. status a = ''approved'' \<and> awardColor a = color e) awards)"
    if "e \<in> set cb" for e
  proof -
    from that obtain c n where cn: "(c, n) \<in> set m" and e: "e = \<lparr> color = c, count = n \<rparr>"
      by (auto simp: cb)
    from cn have "n = length (filter (\<lambda>a. awardColor a = c) xs) \<and> 1 \<le> n"
      unfolding m_def by (rule colorMap_facts(4))
    then show ?thesis
      by (simp add: e xs_def conj_commute)
  qed
  from 1 show "distinct (map color (colorBreakdown S))"
    by (simp add: cb_def S_def)
  from 4 show "\<forall>e \<in> set (colorBreakdown S).
           1 \<le> count e
           \<and> count e = length (filter (\<lambda>a. status a = ''approved'' \<and> awardColor a = color e) awards)"
    unfolding cb_def S_def by blast
  from 2 show "sum_list (map count (colorBreakdown S)) = approved (metrics S)"
    by (simp add: cb_def S_def)
  from 3 show "color ` set (colorBreakdown S) = awardColor ` {a \<in> set awards. status a = ''approved''}"
    by (simp add: cb_def S_def)
qed

text \<open>
  C9. In the color breakdown the colors are pairwise distinct, every count is at least 1,
  and the counts add up to the approved count: every approved award adds one to the
  bucket of its color, gray when the category or its color is absent. Each count is the
  number of approved awards of that color, and the colors listed are exactly the colors
  of the approved awards.
\<close>

theorem colorBreakdown_partitions_approved:
  "let S = buildCeremonySummary parse awards in
     distinct (map color (colorBreakdown S))
     \<and> (\<forall>e \<in> set (colorBreakdown S).
           1 \<le> count e
           \<and> count e = length (filter (\<lambda>a. status a = ''approved'' \<and> awardColor a = color e) awards))
     \<and> sum_list (map count (colorBreakdown S)) = approved (metrics S)
     \<and> color ` set (colorBreakdown S) = awardColor ` {a \<in> set awards. status a = ''approved''}"
  unfolding Let_def
  using colorBreakdown_facts [of parse awards] by blast

theorem colorBreakdown_partitions_approved_witness:
  "distinct (map color (colorBreakdown (buildCeremonySummary example_parse example_awards)))
   \<and> sum_list (map count (colorBreakdown (buildCeremonySummary example_parse example_awards))) = 3"
proof -
  have "approved (metrics (buildCeremonySummary example_parse example_awards)) = 3"
    by (simp add: metrics_approved example_awards_def example_award_def)
  then show ?thesis
    using colorBreakdown_partitions_approved [of example_parse example_awards]
    by (simp add: Let_def)
qed

subsection \<open>Latest approved awards\<close>

lemma sortTime_timeValue: "parse [] = None \<Longrightarrow> sortTime parse ts = timeValue parse ts"
  by (simp add: sortTime_def timeValue_def or_zero_def nullish_def split: option.splits)

lemma displayTimestamp_eq:
  "nullish_opt (approved_at a) (submitted_at a) = displayTimestamp a"
  by (simp add: displayTimestamp_def nullish_opt_def split: option.splits)

lemma categoryName_eq:
  "nullish (opt_chain (category a) category_name) ''Unknown category'' =
     (case category a of
        None \<Rightarrow> ''Unknown category''
      | Some c \<Rightarrow> (case category_name c of None \<Rightarrow> ''Unknown category'' | Some n \<Rightarrow> n))"
  by (simp add: nullish_def opt_chain_def split: option.splits)

lemma latestApproved_eq:
  "latestApproved (buildCeremonySummary parse awards) =
     map (\<lambda>a. \<lparr> entry_id = award_id a,
                 categoryName = nullish (opt_chain (category a) category_name) ''Unknown category'',
                 categoryColor = awardColor a,
                 entry_type = award_type a,
                 nominee = getNomineeLabel a,
                 submittedAt = displayTimestamp a,
                 ceremonyId = ceremony a,
                 submittedBy = or_str (formatPersonName (submitted_by a)) ''Unknown referee'',
                 entry_status = status a \<rparr>)
       (take 5 (sort_key (\<lambda>a. - sortTime parse (displayTimestamp a))
                  (filter (\<lambda>a. status a = ''approved'') awards)))"
  by (simp add: buildCeremonySummary_def Let_def awardColor_eq displayTimestamp_eq
      nullish_opt_None sortTime_def Array_sort_key)


text \<open>
  A missing date is not the oldest date. An approved award dated on the last day of 1969
  has a negative time value; five approved awards without any date have the time value 0
  and are taken as the five latest, and the dated award, although it comes first in the
  input, is left out.
\<close>

theorem latestApproved_undated_counterexample:
  "epoch_parse [] = None
   \<and> displayTimestamp dated_award = Some ''1969-12-31''
   \<and> timeValue epoch_parse (displayTimestamp dated_award) = - 86400000
   \<and> timeValue epoch_parse (displayTimestamp (undated_award 1)) = 0
   \<and> map entry_id (latestApproved (buildCeremonySummary epoch_parse undated_awards))
       = [1, 2, 3, 4, 5]"
  by code_simp

text \<open>
  C3, amended. With \<^verbatim>\<open>Date.parse("")\<close> being NaN, \<^verbatim>\<open>latestApproved\<close> is the projection of
  the first 5 approved awards after a stable sort, latest first, by the time value of the
  approval time if present and of the submission time otherwise, where a missing or
  unparsable date has the time value 0, that of the epoch: such an award sorts after the
  awards dated later than the epoch and before those dated earlier. The 5 are a sorted
  part of the approved awards, no award left out has a greater time value than one taken,
  and there are fewer than 5 only when there are fewer approved awards. Each entry
  carries the award id, the category name and color with the defaults "Unknown category"
  and "gray", the status, the type, the nominee label, the timestamp that the sort used,
  the formatted submitter name with the default "Unknown referee", and the ceremony id.
\<close>

theorem latestApproved_top5:
  assumes "parse [] = None"
  shows "\<exists>top rest.
      latestApproved (buildCeremonySummary parse awards) =
        map (\<lambda>a. \<lparr> entry_id = award_id a,
                    categoryName =
                      (case category a of
                         None \<Rightarrow> ''Unknown category''
                       | Some c \<Rightarrow> (case category_name c of None \<Rightarrow> ''Unknown category'' | Some n \<Rightarrow> n)),
                    categoryColor =
                      (case category a of
                         None \<Rightarrow> ''gray''
                       | Some c \<Rightarrow> (case category_color c of None \<Rightarrow> ''gray'' | Some col \<Rightarrow> col)),
                    entry_type = award_type a,
                    nominee = getNomineeLabel a,
                    submittedAt = displayTimestamp a,
                    ceremonyId = ceremony a,
                    submittedBy =
                      (if formatPersonName (submitted_by a) = [] then ''Unknown referee''
                       else formatPersonName (submitted_by a)),
                    entry_status = status a \<rparr>) top
    \<and> top = take 5 (sort_key (\<lambda>a. - timeValue parse (displayTimestamp a))
                      (filter (\<lambda>a. status a = ''approved'') awards))
    \<and> mset (top @ rest) = mset (filter (\<lambda>a. status a = ''approved'') awards)
    \<and> length top = min 5 (length (filter (\<lambda>a. status a = ''approved'') awards))
    \<and> sorted_wrt (\<lambda>a b. timeValue parse (displayTimestamp b) \<le> timeValue parse (displayTimestamp a)) top
    \<and> (\<forall>a \<in> set top. \<forall>b \<in> set rest.
          timeValue parse (displayTimestamp b) \<le> timeValue parse (displayTimestamp a))"
proof -
  define f where "f = (\<lambda>a. - timeValue parse (displayTimestamp a))"
  define xs where "xs = filter (\<lambda>a. status a = ''approved'') awards"
  define top where "top = take 5 (sort_key f xs)"
  define rest where "rest = drop 5 (sort_key f xs)"
  have code: "(\<lambda>a. - sortTime parse (displayTimestamp a)) = f"
    using assms by (simp add: f_def sortTime_timeValue)
  have 1: "latestApproved (buildCeremonySummary parse awards) =
        map (\<lambda>a. \<lparr> entry_id = award_id a,
                    categoryName =
                      (case category a of
                         None \<Rightarrow> ''Unknown category''
                       | Some c \<Rightarrow> (case category_name c of None \<Rightarrow> ''Unknown category'' | Some n \<Rightarrow> n)),
                    categoryColor =
                      (case category a of
                         None \<Rightarrow> ''gray''
                       | Some c \<Rightarrow> (case category_color c of None \<Rightarrow> ''gray'' | Some col \<Rightarrow> col)),
                    entry_type = award_type a,
                    nominee = getNomineeLabel a,
                    submittedAt = displayTimestamp a,
                    ceremonyId = ceremony a,
                    submittedBy =
                      (if formatPersonName (submitted_by a) = [] then ''Unknown referee''
                       else formatPersonName (submitted_by a)),
                    entry_status = status a \<rparr>) top"
    by (simp add: latestApproved_eq code top_def xs_def categoryName_eq awardColor_def or_str_def)
  have 2: "mset (top @ rest) = mset xs"
    unfolding top_def rest_def by (rule top_spec(1))
  have 3: "length top = min 5 (length xs)"
    unfolding top_def by (rule top_spec(2))
  have "sorted (map f top)"
    unfolding top_def by (rule top_spec(3))
  then have 4: "sorted_wrt (\<lambda>a b. timeValue parse (displayTimestamp b) \<le> timeValue parse (displayTimestamp a)) top"
    by (simp add: sorted_map f_def)
  have "\<forall>a \<in> set top. \<forall>b \<in> set rest. f a \<le> f b"
    unfolding top_def rest_def by (rule top_spec(4))
  then have 5: "\<forall>a \<in> set top. \<forall>b \<in> set rest.
          timeValue parse (displayTimestamp b) \<le> timeValue parse (displayTimestamp a)"
    by (simp add: f_def)
  from 1 2 3 4 5 show ?thesis
    unfolding xs_def top_def f_def by blast
qed

theorem latestApproved_top5_witness:
  "example_parse [] = None
   \<and> map entry_id (latestApproved (buildCeremonySummary example_parse example_awards)) = [2, 1, 3]"
proof -
  have h: "example_parse [] = None" by (simp add: example_parse_def)
  have k: "timeValue example_parse (Some ''05-03'') = 1714694400000"
      "timeValue example_parse (Some ''05-02'') = 1714608000000"
      "timeValue example_parse None = 0"
    by (simp_all add: timeValue_def example_parse_def)
  show ?thesis
    using h latestApproved_top5 [of example_parse example_awards, OF h]
    by (auto simp: example_awards_def example_award_def displayTimestamp_def k)
qed

subsection \<open>Independence of the input order\<close>







section \<open>Properties of the pending queue\<close>

lemma pendingAwards_sort_key:
  "buildParticipantTeamSummary_pendingAwards parse awards =
     sort_key (\<lambda>e. - sortTime parse (submittedAt e))
       (map pendingAwardEntry (filter (\<lambda>a. status a = ''pending'') awards))"
  by (simp add: buildParticipantTeamSummary_pendingAwards_def Array_sort_key sortTime_def)

lemma formatPersonName_None: "formatPersonName None = []"
  by (simp add: formatPersonName_def)

text \<open>
  C10. The pending queue of the participant and team summary holds the projections of the
  pending awards. A pending award whose type is not individual and whose team nominee
  name is absent is labelled "Team nominee", where the nominee label helper says
  "Nominee TBD". A pending award of type individual is labelled with the formatted
  participant name, or "Individual nominee" when that is empty, also when the award has
  no participant nominee at all.
\<close>

theorem pendingAwards_nominee_labels:
  "mset (buildParticipantTeamSummary_pendingAwards parse awards) =
     mset (map pendingAwardEntry (filter (\<lambda>a. status a = ''pending'') awards))
   \<and> entry_id (pendingAwardEntry a) = award_id a
   \<and> (award_type a \<noteq> Some Individual
        \<and> (team_nominee a = None \<or> (\<exists>t. team_nominee a = Some t \<and> team_name t = None))
      \<longrightarrow> nominee (pendingAwardEntry a) = ''Team nominee'' \<and> getNomineeLabel a = ''Nominee TBD'')
   \<and> (award_type a = Some Individual
      \<longrightarrow> nominee (pendingAwardEntry a) =
            (if formatPersonName (participant_nominee a) = [] then ''Individual nominee''
             else formatPersonName (participant_nominee a)))
   \<and> (award_type a = Some Individual \<and> participant_nominee a = None
      \<longrightarrow> nominee (pendingAwardEntry a) = ''Individual nominee'')"
proof -
  have 1: "mset (buildParticipantTeamSummary_pendingAwards parse awards) =
     mset (map pendingAwardEntry (filter (\<lambda>a. status a = ''pending'') awards))"
    by (simp only: pendingAwards_sort_key mset_sort)
  have 2: "nominee (pendingAwardEntry a) = ''Team nominee'' \<and> getNomineeLabel a = ''Nominee TBD''"
    if "award_type a \<noteq> Some Individual"
      "team_nominee a = None \<or> (\<exists>t. team_nominee a = Some t \<and> team_name t = None)"
    using that
    by (auto simp: pendingAwardEntry_def getNomineeLabel_def nullish_def opt_chain_def truthy_str_def)
  have 3: "nominee (pendingAwardEntry a) =
            (if formatPersonName (participant_nominee a) = [] then ''Individual nominee''
             else formatPersonName (participant_nominee a))"
    if "award_type a = Some Individual"
    using that by (simp add: pendingAwardEntry_def or_str_def)
  have 4: "nominee (pendingAwardEntry a) = ''Individual nominee''"
    if "award_type a = Some Individual" "participant_nominee a = None"
    using that by (simp add: pendingAwardEntry_def or_str_def formatPersonName_None)
  have 5: "entry_id (pendingAwardEntry a) = award_id a"
    by (simp add: pendingAwardEntry_def)
  from 1 2 3 4 5 show ?thesis by blast
qed

theorem pendingAwards_nominee_labels_witness:
  "award_type example_team_pending \<noteq> Some Individual
   \<and> team_nominee example_team_pending = None
   \<and> nominee (pendingAwardEntry example_team_pending) = ''Team nominee''
   \<and> getNomineeLabel example_team_pending = ''Nominee TBD''
   \<and> award_type example_individual_pending = Some Individual
   \<and> participant_nominee example_individual_pending = None
   \<and> nominee (pendingAwardEntry example_individual_pending) = ''Individual nominee''"
proof -
  have t: "award_type example_team_pending \<noteq> Some Individual" "team_nominee example_team_pending = None"
    by (simp_all add: example_team_pending_def example_award_def)
  have i: "award_type example_individual_pending = Some Individual"
      "participant_nominee example_individual_pending = None"
    by (simp_all add: example_individual_pending_def example_award_def)
  show ?thesis
    using t i
      pendingAwards_nominee_labels [of example_parse "[]" example_team_pending]
      pendingAwards_nominee_labels [of example_parse "[]" example_individual_pending]
    by blast
qed

section \<open>Properties of the requests to the store\<close>

lemma directusFetch_logging:
  assumes "getDirectusBaseUrl e = Inr baseUrl" and "getDirectusHeaders e = Inr hdrs"
  shows "snd (snd (directusFetch e (logging fetch) path
            (Some \<lparr> init_method = m, init_headers = None, init_body = b \<rparr>) (s, log))) =
         log @ [\<lparr> request_url = baseUrl @ ''/'' @ path, request_method = m,
                  request_headers = hdrs, request_body = b, request_cache = ''no-store'' \<rparr>]"
  using assms
  by (simp add: directusFetch_def logging_def opt_chain_def nullish_def Let_def
      split: prod.splits sum.splits option.splits)

lemma directusFetch_unconfigured:
  assumes "getDirectusBaseUrl e = Inl err \<or> getDirectusHeaders e = Inl err"
  shows "\<exists>err'. directusFetch e fetch path init s = (Inl err', s)"
  using assms by (auto simp: directusFetch_def split: sum.splits)

lemma snd_case_result:
  "snd (case p of (Inl err, s') \<Rightarrow> (Inl err, s') | (Inr r, s') \<Rightarrow> (Inr (g r), s')) = snd p"
  by (simp split: prod.splits sum.splits)

lemma example_configured:
  "getDirectusBaseUrl example_env = Inr ''https://cms.example''"
  "getDirectusHeaders example_env =
     Inr [(''Authorization'', ''Bearer secret''), (''Content-Type'', ''application/json'')]"
  by (simp_all add: getDirectusBaseUrl_def getDirectusHeaders_def example_env_def truthy_str_def
      nullish_def Let_def)

subsection \<open>Status update\<close>

lemma updateAwardStatus_payload_fields:
  "updateAwardStatus_payload now st =
     [(''status'', JStr (status_string st)),
      (''approved_at'', if st = Approved then JStr now else JNull)]"
  by (simp add: updateAwardStatus_payload_def Let_def)

text \<open>
  C1. For every award id and every target status, in a configured environment
  \<^verbatim>\<open>updateAwardStatus\<close> sends exactly one request, a PATCH of that award, whose body has
  the fields status and approved_at: approved_at is the current time, not null, when
  the status is approved, and null for the two other statuses. The request is the same
  whatever the state of the store, so whatever status the award had before: it holds
  for all nine transitions.
\<close>

theorem updateAwardStatus_approved_at:
  assumes "getDirectusBaseUrl e = Inr baseUrl" and "getDirectusHeaders e = Inr hdrs"
  shows "\<exists>req payload.
      snd (snd (updateAwardStatus e (logging fetch) toString now awardId st (s, []))) = [req]
    \<and> request_method req = Some ''PATCH''
    \<and> request_url req = baseUrl @ ''/items/awards/'' @ String_of_number toString awardId
    \<and> request_body req = Some payload
    \<and> map fst payload = [''status'', ''approved_at'']
    \<and> map_of payload ''status'' = Some (JStr (status_string st))
    \<and> (st = Approved \<longrightarrow> map_of payload ''approved_at'' = Some (JStr now))
    \<and> (st \<noteq> Approved \<longrightarrow> map_of payload ''approved_at'' = Some JNull)"
proof -
  have "snd (snd (updateAwardStatus e (logging fetch) toString now awardId st (s, []))) =
      [\<lparr> request_url = baseUrl @ ''/'' @ ''items/awards/'' @ String_of_number toString awardId,
         request_method = Some ''PATCH'', request_headers = hdrs,
         request_body = Some (updateAwardStatus_payload now st), request_cache = ''no-store'' \<rparr>]"
    unfolding updateAwardStatus_def snd_case_result
    by (simp add: directusFetch_logging [OF assms])
  then show ?thesis
    by (simp add: updateAwardStatus_payload_fields)
qed

theorem updateAwardStatus_approved_at_witness:
  "getDirectusBaseUrl example_env = Inr ''https://cms.example''
   \<and> getDirectusHeaders example_env =
       Inr [(''Authorization'', ''Bearer secret''), (''Content-Type'', ''application/json'')]
   \<and> (\<exists>req. snd (snd (updateAwardStatus example_env (logging example_fetch) example_toString ''now'' 42 Rejected
                          ((), []))) = [req]
          \<and> request_url req = ''https://cms.example/items/awards/42''
          \<and> request_body req = Some [(''status'', JStr ''rejected''), (''approved_at'', JNull)])"
proof -
  from updateAwardStatus_approved_at
    [OF example_configured, of example_fetch example_toString "''now''" 42 Rejected "()"]
  obtain req payload where r:
      "snd (snd (updateAwardStatus example_env (logging example_fetch) example_toString ''now'' 42 Rejected ((), []))) = [req]"
      "request_url req = ''https://cms.example'' @ ''/items/awards/'' @ String_of_number example_toString 42"
      "request_body req = Some payload"
      "map fst payload = [''status'', ''approved_at'']"
      "map_of payload ''status'' = Some (JStr (status_string Rejected))"
      "map_of payload ''approved_at'' = Some JNull"
    by auto
  from r(4) obtain v w where p: "payload = [(''status'', v), (''approved_at'', w)]"
    by (auto simp: map_eq_Cons_conv)
  with r(5,6) have "payload = [(''status'', JStr ''rejected''), (''approved_at'', JNull)]"
    by (simp add: status_string_def)
  moreover have "String_of_number example_toString 42 = ''42''"
    by code_simp
  ultimately show ?thesis
    using r(1,2,3) example_configured by simp
qed

subsection \<open>Award creation\<close>

lemma createAward_payload_keys:
  "map fst (createAward_payload now input) =
     [''category'', ''ceremony'', ''type'', ''participant_nominee'', ''team_nominee'',
      ''status'', ''submitted_at'']
     @ (if \<exists>n. input_notes input = Some n \<and> trim n \<noteq> [] then [''notes''] else [])"
  by (auto simp: createAward_payload_def Let_def truthy_str_def nullish_def trim_def
      split: option.splits)

lemma createAward_payload_status:
  "map_of (createAward_payload now input) ''status'' =
     Some (JStr (case input_status input of None \<Rightarrow> ''pending'' | Some st \<Rightarrow> status_string st))"
  by (simp add: createAward_payload_def Let_def nullish_def map_of_Map_set split: option.splits)

lemma createAward_payload_submitted_at:
  "map_of (createAward_payload now input) ''submitted_at'' = Some (JStr now)"
  by (simp add: createAward_payload_def Let_def map_of_Map_set)

lemma createAward_payload_notes:
  "map_of (createAward_payload now input) ''notes'' =
     (case input_notes input of
        None \<Rightarrow> None
      | Some n \<Rightarrow> if trim n = [] then None else Some (JStr n))"
  by (auto simp: createAward_payload_def Let_def truthy_str_def nullish_def map_of_Map_set trim_def
      split: option.splits)

text \<open>
  C8. For every input, in a configured environment \<^verbatim>\<open>createAward\<close> sends exactly one
  request, a POST to the awards collection, in whose body the status is the input's
  status and "pending" when the input gives none, submitted_at is the current time,
  there is no approved_at key at all, and there is a notes key if and only if the
  input's notes are not empty after trimming white space; the notes are then sent as
  given.
\<close>

theorem createAward_payload_shape:
  assumes "getDirectusBaseUrl e = Inr baseUrl" and "getDirectusHeaders e = Inr hdrs"
  shows "\<exists>req payload.
      snd (snd (createAward e (logging fetch) now input (s, []))) = [req]
    \<and> request_method req = Some ''POST''
    \<and> request_url req = baseUrl @ ''/items/awards''
    \<and> request_body req = Some payload
    \<and> map_of payload ''status'' =
        Some (JStr (case input_status input of None \<Rightarrow> ''pending'' | Some st \<Rightarrow> status_string st))
    \<and> map_of payload ''submitted_at'' = Some (JStr now)
    \<and> ''approved_at'' \<notin> set (map fst payload)
    \<and> (''notes'' \<in> set (map fst payload) \<longleftrightarrow> (\<exists>n. input_notes input = Some n \<and> trim n \<noteq> []))
    \<and> (\<forall>n. input_notes input = Some n \<and> trim n \<noteq> [] \<longrightarrow> map_of payload ''notes'' = Some (JStr n))"
proof -
  have "snd (snd (createAward e (logging fetch) now input (s, []))) =
      [\<lparr> request_url = baseUrl @ ''/'' @ ''items/awards'',
         request_method = Some ''POST'', request_headers = hdrs,
         request_body = Some (createAward_payload now input), request_cache = ''no-store'' \<rparr>]"
    unfolding createAward_def snd_case_result
    by (simp add: directusFetch_logging [OF assms])
  moreover have "''approved_at'' \<notin> set (map fst (createAward_payload now input))"
    by (simp only: createAward_payload_keys) simp
  moreover have "''notes'' \<in> set (map fst (createAward_payload now input))
      \<longleftrightarrow> (\<exists>n. input_notes input = Some n \<and> trim n \<noteq> [])"
    by (simp only: createAward_payload_keys) simp
  moreover have "\<forall>n. input_notes input = Some n \<and> trim n \<noteq> []
      \<longrightarrow> map_of (createAward_payload now input) ''notes'' = Some (JStr n)"
    by (simp add: createAward_payload_notes)
  ultimately show ?thesis
    using createAward_payload_status [of now input] createAward_payload_submitted_at [of now input]
    by simp
qed

theorem createAward_payload_shape_witness:
  "getDirectusBaseUrl example_env = Inr ''https://cms.example''
   \<and> getDirectusHeaders example_env =
       Inr [(''Authorization'', ''Bearer secret''), (''Content-Type'', ''application/json'')]
   \<and> (\<exists>req payload.
          snd (snd (createAward example_env (logging example_fetch) ''now'' example_input ((), []))) = [req]
        \<and> request_body req = Some payload
        \<and> map_of payload ''status'' = Some (JStr ''pending'')
        \<and> map_of payload ''submitted_at'' = Some (JStr ''now'')
        \<and> ''approved_at'' \<notin> set (map fst payload)
        \<and> ''notes'' \<notin> set (map fst payload))"
proof -
  have "trim ''  '' = []"
    by (simp add: trim_def isWhiteSpace_def)
  then show ?thesis
    using createAward_payload_shape [OF example_configured, of example_fetch "''now''" example_input "()"]
      example_configured
    by (auto simp: example_input_def)
qed

section \<open>Properties of the award creation handler\<close>

lemma falsy_number_iff: "falsy_number n \<longleftrightarrow> missing_or_zero n"
  by (simp add: falsy_number_def missing_or_zero_def split: option.splits)

lemma not_truthy_iff: "\<not> truthy v \<longleftrightarrow> missing_or_falsy v"
  by (auto simp: truthy_def missing_or_falsy_def split: option.splits json.splits)

lemma POST_throws:
  "POST e fetch toString now None s = (Inl SyntaxError, s)"
  "POST e fetch toString now (Some JNull) s = (Inl TypeError, s)"
  by (simp_all add: POST_def)

lemma POST_invalid:
  assumes "body \<noteq> JNull" and "validation_failure body"
  shows "\<exists>msg. POST e fetch toString now (Some body) s =
           (Inr \<lparr> reply_status = 400, reply_body = Message msg \<rparr>, s)"
  using assms
  by (auto simp: POST_def Let_def validation_failure_def falsy_number_iff not_truthy_iff
      Number_isNaN_def)

lemma POST_valid:
  assumes "body \<noteq> JNull" and "\<not> validation_failure body"
  shows "\<exists>ce ca ty.
      ceremonyId_of body = Some ce \<and> categoryId_of body = Some ca
    \<and> property body ''type'' = Some ty
    \<and> POST e fetch toString now (Some body) s =
        (case createAward e fetch now
                \<lparr> input_category = ca, input_ceremony = ce, input_type = ty,
                  input_participant_nominee =
                    (if ty = JStr ''individual'' then participantId_of body else None),
                  input_team_nominee =
                    (if ty = JStr ''individual'' then None else teamId_of body),
                  input_notes = notes_of toString body, input_status = None \<rparr> s of
           (Inr award, s') \<Rightarrow> (Inr \<lparr> reply_status = 201, reply_body = Award award \<rparr>, s')
         | (Inl err, s') \<Rightarrow>
             (Inr \<lparr> reply_status = 500, reply_body = Message ''Failed to create award.'' \<rparr>,
              s'))"
proof -
  from assms(2) obtain ce ca ty where v: "ceremonyId_of body = Some ce"
      "categoryId_of body = Some ca" "property body ''type'' = Some ty" "ce \<noteq> 0" "ca \<noteq> 0"
      "\<not> missing_or_falsy (Some ty)"
    by (auto simp: validation_failure_def missing_or_zero_def missing_or_falsy_def)
  from assms(2) v(3) have n:
      "ty = JStr ''individual'' \<Longrightarrow> \<not> missing_or_zero (participantId_of body)"
      "ty \<noteq> JStr ''individual'' \<Longrightarrow> \<not> missing_or_zero (teamId_of body)"
    by (simp_all add: validation_failure_def)
  have "POST e fetch toString now (Some body) s =
        (case createAward e fetch now
                \<lparr> input_category = ca, input_ceremony = ce, input_type = ty,
                  input_participant_nominee =
                    (if ty = JStr ''individual'' then participantId_of body else None),
                  input_team_nominee =
                    (if ty = JStr ''individual'' then None else teamId_of body),
                  input_notes = notes_of toString body, input_status = None \<rparr> s of
           (Inr award, s') \<Rightarrow> (Inr \<lparr> reply_status = 201, reply_body = Award award \<rparr>, s')
         | (Inl err, s') \<Rightarrow>
             (Inr \<lparr> reply_status = 500, reply_body = Message ''Failed to create award.'' \<rparr>,
              s'))"
    using assms(1) v n
    by (cases "ty = JStr ''individual''")
      (auto simp: POST_def Let_def falsy_number_iff not_truthy_iff Number_isNaN_def
         missing_or_zero_def nullish_opt_None)
  with v show ?thesis by blast
qed

lemma replied_status_case:
  "replied_status (case p of
       (Inr award, s') \<Rightarrow> (Inr \<lparr> reply_status = 201, reply_body = Award award \<rparr>, s')
     | (Inl err, s') \<Rightarrow> (Inr \<lparr> reply_status = 500, reply_body = Message m \<rparr>, s'))
   = (case fst p of Inr award \<Rightarrow> Some 201 | Inl err \<Rightarrow> Some 500)"
  by (simp add: replied_status_def split: prod.splits sum.splits)

text \<open>
  A body whose type is a string outside the three has a ceremony id, a category id and a
  type that is neither individual, nor team, nor overall; without a team nominee the
  handler rejects it, because its third guard asks a team of every type but individual.
\<close>

lemma POST_unknown_type_example:
  "\<not> claimed_validation_failure unknown_type_body
   \<and> POST example_env (logging example_fetch) example_toString ''now'' (Some unknown_type_body)
         ((), []) =
       (Inr \<lparr> reply_status = 400,
              reply_body = Message ''Team or overall award requires a team nominee.'' \<rparr>,
        ((), []))"
  by (simp add: claimed_validation_failure_def unknown_type_body_def POST_def property_def
      ceremonyId_of_def categoryId_of_def teamId_of_def participantId_of_def number_or_null_def
      nullish_opt_def falsy_number_def truthy_def Number_isNaN_def notes_of_def Let_def)

text \<open>
  A request whose ceremony id is the number 0 has a ceremony id, a category id, a type
  and the team nominee that its type calls for, and the handler still rejects it with
  status 400 before any request to the store: "rejects exactly when an identifier is
  missing" does not hold of the handler.
\<close>

theorem POST_zero_id_counterexample:
  "\<not> claimed_validation_failure zero_ceremony_body
   \<and> POST example_env (logging example_fetch) example_toString ''now'' (Some zero_ceremony_body)
         ((), []) =
       (Inr \<lparr> reply_status = 400,
              reply_body = Message ''Missing ceremony, category, or type information.'' \<rparr>,
        ((), []))"
  by (simp add: claimed_validation_failure_def zero_ceremony_body_def POST_def property_def
      ceremonyId_of_def categoryId_of_def teamId_of_def participantId_of_def number_or_null_def
      nullish_opt_def falsy_number_def truthy_def notes_of_def Let_def)

text \<open>
  C4, amended. A request whose body is not JSON, or is the JSON value null, makes the
  handler throw before it validates anything: it sends nothing to the store and leaves
  the reply to its caller. For every other body, the handler rejects with status 400,
  leaving the state of the world untouched and sending nothing to the store, exactly when
  the ceremony id or the category id is missing or 0, or the type is missing or falsy
  (null, false, 0 or the empty string), or the type is the string "individual" and the
  participant nominee id is missing or 0, or the type is anything else (team, overall or
  any other value) and the team nominee id is missing or 0. Each id is read from the
  camel-case field when that holds a number, else from the snake-case field when that
  holds a number, else it is missing. A request that passes is forwarded to
  \<^verbatim>\<open>createAward\<close> with these ids, the type as given, the nominee that the type calls for
  and the notes; the reply is 201 with the created award, or 500 when the store call
  fails, never 400.
\<close>

theorem POST_validation:
  "POST e fetch toString now None s = (Inl SyntaxError, s)
   \<and> POST e fetch toString now (Some JNull) s = (Inl TypeError, s)
   \<and> (body \<noteq> JNull \<and> validation_failure body \<longrightarrow>
      (\<exists>msg. POST e fetch toString now (Some body) s =
         (Inr \<lparr> reply_status = 400, reply_body = Message msg \<rparr>, s)))
   \<and> (body \<noteq> JNull \<and> \<not> validation_failure body \<longrightarrow>
      (\<exists>ce ca ty.
          ceremonyId_of body = Some ce \<and> categoryId_of body = Some ca
        \<and> property body ''type'' = Some ty
        \<and> POST e fetch toString now (Some body) s =
            (case createAward e fetch now
                    \<lparr> input_category = ca, input_ceremony = ce, input_type = ty,
                      input_participant_nominee =
                        (if ty = JStr ''individual'' then participantId_of body else None),
                      input_team_nominee =
                        (if ty = JStr ''individual'' then None else teamId_of body),
                      input_notes = notes_of toString body, input_status = None \<rparr> s of
               (Inr award, s') \<Rightarrow>
                 (Inr \<lparr> reply_status = 201, reply_body = Award award \<rparr>, s')
             | (Inl err, s') \<Rightarrow>
                 (Inr \<lparr> reply_status = 500,
                        reply_body = Message ''Failed to create award.'' \<rparr>, s'))))
   \<and> (body \<noteq> JNull \<longrightarrow>
      (replied_status (POST e fetch toString now (Some body) s) = Some 400
       \<longleftrightarrow> validation_failure body))"
proof -
  have 1: "\<exists>msg. POST e fetch toString now (Some body) s =
         (Inr \<lparr> reply_status = 400, reply_body = Message msg \<rparr>, s)"
    if "body \<noteq> JNull" "validation_failure body"
    using that by (rule POST_invalid)
  have 2: "\<exists>ce ca ty.
          ceremonyId_of body = Some ce \<and> categoryId_of body = Some ca
        \<and> property body ''type'' = Some ty
        \<and> POST e fetch toString now (Some body) s =
            (case createAward e fetch now
                    \<lparr> input_category = ca, input_ceremony = ce, input_type = ty,
                      input_participant_nominee =
                        (if ty = JStr ''individual'' then participantId_of body else None),
                      input_team_nominee =
                        (if ty = JStr ''individual'' then None else teamId_of body),
                      input_notes = notes_of toString body, input_status = None \<rparr> s of
               (Inr award, s') \<Rightarrow>
                 (Inr \<lparr> reply_status = 201, reply_body = Award award \<rparr>, s')
             | (Inl err, s') \<Rightarrow>
                 (Inr \<lparr> reply_status = 500,
                        reply_body = Message ''Failed to create award.'' \<rparr>, s'))"
    if "body \<noteq> JNull" "\<not> validation_failure body"
    using that by (rule POST_valid)
  have 3: "replied_status (POST e fetch toString now (Some body) s) = Some 400
       \<longleftrightarrow> validation_failure body"
    if nn: "body \<noteq> JNull"
  proof (cases "validation_failure body")
    case True
    with 1 [OF nn] show ?thesis by (auto simp: replied_status_def)
  next
    case False
    from 2 [OF nn False] obtain input where
        "POST e fetch toString now (Some body) s =
            (case createAward e fetch now input s of
               (Inr award, s') \<Rightarrow>
                 (Inr \<lparr> reply_status = 201, reply_body = Award award \<rparr>, s')
             | (Inl err, s') \<Rightarrow>
                 (Inr \<lparr> reply_status = 500,
                        reply_body = Message ''Failed to create award.'' \<rparr>, s'))"
      by blast
    then have "replied_status (POST e fetch toString now (Some body) s) \<noteq> Some 400"
      by (simp only: replied_status_case) (simp split: sum.splits)
    with False show ?thesis by simp
  qed
  from 1 2 3 POST_throws [of e fetch toString now s] show ?thesis by blast
qed

theorem POST_validation_witness:
  "no_team_body \<noteq> JNull
   \<and> validation_failure no_team_body
   \<and> (\<exists>msg. POST example_env (logging example_fetch) example_toString ''now'' (Some no_team_body)
              ((), []) =
         (Inr \<lparr> reply_status = 400, reply_body = Message msg \<rparr>, ((), [])))
   \<and> example_body \<noteq> JNull
   \<and> \<not> validation_failure example_body
   \<and> replied_status
        (POST example_env (logging example_fetch) example_toString ''now'' (Some example_body)
           ((), [])) \<noteq> Some 400"
proof -
  have bad: "no_team_body \<noteq> JNull" "validation_failure no_team_body"
    by (simp_all add: validation_failure_def missing_or_zero_def missing_or_falsy_def
        no_team_body_def property_def ceremonyId_of_def categoryId_of_def teamId_of_def
        number_or_null_def nullish_opt_def)
  have good: "example_body \<noteq> JNull" "\<not> validation_failure example_body"
    by (simp_all add: validation_failure_def missing_or_zero_def missing_or_falsy_def
        example_body_def property_def ceremonyId_of_def categoryId_of_def teamId_of_def
        number_or_null_def nullish_opt_def)
  show ?thesis
    using bad good
      POST_validation [of example_env "logging example_fetch" example_toString "''now''"
        "((), [])" no_team_body]
      POST_validation [of example_env "logging example_fetch" example_toString "''now''"
        "((), [])" example_body]
    by blast
qed

end
